theory Spec2Isabelle
  imports Complex_Main
begin

section \<open>The LRN operators of \<^verbatim>\<open>local_response_normalization_op_cudnn.cc\<close>\<close>

text \<open>
  The file holds two operators, \<^verbatim>\<open>CuDNNLRNOp\<close> (forward) and
  \<^verbatim>\<open>CuDNNLRNGradientOp\<close> (backward). Both keep a tensor descriptor, an LRN
  descriptor and the dimensions the tensor descriptor was last built for, and hand the
  arithmetic to the vendor library. The embedding passes the operator's members, the
  output tensor and the log of vendor calls explicitly; every \<^verbatim>\<open>CUDNN_ENFORCE\<close>
  and \<^verbatim>\<open>CAFFE_THROW\<close> is a branch that returns an error together with the
  state reached so far, since a C++ exception leaves the object as it is at the throw.
\<close>

subsection \<open>Element types and tensors\<close>

text \<open>The two element types the templates are instantiated at.\<close>

datatype ctype = T_float | T_float16

text \<open>The run-time element kind of a tensor (\<^verbatim>\<open>TypeMeta\<close>).\<close>

datatype TypeMeta = Float | Float16 | Double | Int32 | Int64 | UInt8 | Bool

fun Make :: "ctype \<Rightarrow> TypeMeta" where
  "Make T_float = Float"
| "Make T_float16 = Float16"

text \<open>
  A tensor: its dimensions (\<^verbatim>\<open>vector<TIndex>\<close>, signed 64-bit sizes), its element
  kind and the identity of its buffer. The storage belongs to the tensor system; the
  operators only pass pointers to it on.
\<close>

record Tensor =
  dims :: "int list"
  meta :: TypeMeta
  raw :: nat

text \<open>A typed pointer into a tensor's buffer.\<close>

datatype ptr = Ptr ctype nat

definition INT_MAX :: int where
  "INT_MAX = 2147483647"

datatype cudnnStatus =
    CUDNN_STATUS_SUCCESS
  | CUDNN_STATUS_NOT_INITIALIZED
  | CUDNN_STATUS_ALLOC_FAILED
  | CUDNN_STATUS_BAD_PARAM
  | CUDNN_STATUS_INTERNAL_ERROR
  | CUDNN_STATUS_EXECUTION_FAILED
  | CUDNN_STATUS_NOT_SUPPORTED

text \<open>
  The three ways an invocation ends early: the \<^verbatim>\<open>CAFFE_THROW\<close> of the type
  dispatch, a vendor status other than success under \<^verbatim>\<open>CUDNN_ENFORCE\<close>, and an
  enforce failure inside the tensor interface.
\<close>

datatype error =
    Unsupported_input_type
  | CudnnError cudnnStatus
  | EnforceNotMet

text \<open>
  Modelled from the spec: the tensor interface of \<^verbatim>\<open>caffe2/core/tensor.h\<close>, which
  is not among the sources (the spec lists shape inspection, element-type inspection, typed
  read pointers, typed mutable-write pointers and in-place resize-to-match-another-tensor).
  \<^verbatim>\<open>IsType<T>()\<close> compares the element kind.
\<close>

definition IsType :: "Tensor \<Rightarrow> ctype \<Rightarrow> bool" where
  "IsType X T = (meta X = Make T)"

text \<open>
  Modelled from the spec: \<^verbatim>\<open>Tensor::ResizeLike\<close> (tensor interface, not among the
  sources), the in-place resize to another tensor's shape.
\<close>

definition ResizeLike :: "Tensor \<Rightarrow> Tensor \<Rightarrow> Tensor" where
  "ResizeLike Y X = Y\<lparr>dims := dims X\<rparr>"

text \<open>
  Modelled from the spec: \<^verbatim>\<open>Tensor::dim32\<close> (tensor interface, not among the
  sources), shape inspection of one dimension as a C \<^verbatim>\<open>int\<close>. An index past the
  rank and a size that does not fit an \<^verbatim>\<open>int\<close> are written out as enforce
  failures rather than left unspecified; the theorems below that depend on the value are
  stated for tensors on which neither happens (\<open>rank4\<close>).
\<close>

definition dim32 :: "Tensor \<Rightarrow> nat \<Rightarrow> error + int" where
  "dim32 X i =
     (if i < length (dims X) \<and> dims X ! i < INT_MAX then Inr (dims X ! i)
      else Inl EnforceNotMet)"

text \<open>
  Modelled from the spec: \<^verbatim>\<open>Tensor::data<T>()\<close> (tensor interface, not among the
  sources), the typed read pointer. The pointer is typed: it is handed out for a tensor that
  holds elements of kind \<open>T\<close>, and a request at another kind is an enforce failure (the
  accessor enforces \<^verbatim>\<open>IsType<T>()\<close>). The shape plays no part.
\<close>

definition data :: "Tensor \<Rightarrow> ctype \<Rightarrow> error + ptr" where
  "data X T = (if IsType X T then Inr (Ptr T (raw X)) else Inl EnforceNotMet)"

text \<open>
  Modelled from the spec: \<^verbatim>\<open>Tensor::mutable_data<T>()\<close> (tensor interface, not
  among the sources), the typed mutable-write pointer. The tensor holds elements of kind
  \<open>T\<close> afterwards (the forward contract of the spec: the output has the input's element
  type); its shape is untouched.
\<close>

definition mutable_data :: "Tensor \<Rightarrow> ctype \<Rightarrow> ptr \<times> Tensor" where
  "mutable_data Y T = (Ptr T (raw Y), Y\<lparr>meta := Make T\<rparr>)"

text \<open>A well-formed image tensor: four dimensions, each a non-negative C \<^verbatim>\<open>int\<close>.\<close>

definition rank4 :: "Tensor \<Rightarrow> bool" where
  "rank4 X = (length (dims X) = 4 \<and> list_all (\<lambda>d. 0 \<le> d \<and> d < INT_MAX) (dims X))"

subsection \<open>The vendor library\<close>

datatype cudnnTensorFormat = CUDNN_TENSOR_NCHW | CUDNN_TENSOR_NHWC

datatype cudnnDataType = CUDNN_DATA_FLOAT | CUDNN_DATA_DOUBLE | CUDNN_DATA_HALF

datatype cudnnLRNMode = CUDNN_LRN_CROSS_CHANNEL_DIM1

text \<open>What \<^verbatim>\<open>cudnnSetTensor4dDescriptor\<close> stores in a tensor descriptor.\<close>

record TensorDesc =
  format :: cudnnTensorFormat
  dataType :: cudnnDataType
  dim_n :: int
  dim_c :: int
  dim_h :: int
  dim_w :: int

text \<open>What \<^verbatim>\<open>cudnnSetLRNDescriptor\<close> stores in an LRN descriptor.\<close>

record LRNDesc =
  lrnN :: int
  lrnAlpha :: real
  lrnBeta :: real
  lrnK :: real

text \<open>
  \<^verbatim>\<open>cudnnTypeWrapper<T>\<close> of \<^verbatim>\<open>common_cudnn.h\<close> (a type declaration that is
  not among the sources): the vendor's tag of the element type, and the scaling
  constants \<^verbatim>\<open>kOne()\<close> and \<^verbatim>\<open>kZero()\<close>.
\<close>

fun cudnnTypeWrapper_type :: "ctype \<Rightarrow> cudnnDataType" where
  "cudnnTypeWrapper_type T_float = CUDNN_DATA_FLOAT"
| "cudnnTypeWrapper_type T_float16 = CUDNN_DATA_HALF"

datatype scaling = kOne ctype | kZero ctype

text \<open>
  The vendor calls the file makes, each with the arguments it passes. A descriptor
  argument is recorded by its content at the time of the call; \<open>None\<close> is a tensor
  descriptor that was created and never set. The library handle, the same in every compute
  call, is left out.
\<close>

datatype cudnnCall =
    cudnnCreateTensorDescriptor
  | cudnnCreateLRNDescriptor
  | cudnnSetLRNDescriptor int real real real
  | cudnnSetTensor4dDescriptor TensorDesc
  | cudnnLRNCrossChannelForward LRNDesc cudnnLRNMode
      scaling "TensorDesc option" ptr scaling "TensorDesc option" ptr
  | cudnnLRNCrossChannelBackward LRNDesc cudnnLRNMode
      scaling "TensorDesc option" ptr "TensorDesc option" ptr "TensorDesc option" ptr
      scaling "TensorDesc option" ptr

text \<open>
  The vendor library is a parameter: the status it returns for a call, given the calls
  made before.
\<close>

type_synonym vendor = "cudnnCall list \<Rightarrow> cudnnCall \<Rightarrow> cudnnStatus"

fun is_set_layout :: "cudnnCall \<Rightarrow> bool" where
  "is_set_layout (cudnnSetTensor4dDescriptor d) = True"
| "is_set_layout _ = False"

fun is_compute :: "cudnnCall \<Rightarrow> bool" where
  "is_compute (cudnnLRNCrossChannelForward nd m a xd x b yd y) = True"
| "is_compute (cudnnLRNCrossChannelBackward nd m a yd y dyd dy xd x b dxd dx) = True"
| "is_compute _ = False"

fun is_norm_call :: "cudnnCall \<Rightarrow> bool" where
  "is_norm_call cudnnCreateLRNDescriptor = True"
| "is_norm_call (cudnnSetLRNDescriptor k a b bi) = True"
| "is_norm_call _ = False"

subsection \<open>Operator state\<close>

text \<open>
  The members of \<^verbatim>\<open>CuDNNLRNOp\<close>; \<^verbatim>\<open>CuDNNLRNGradientOp\<close> declares the same
  ones. The two descriptors are held by their content.
\<close>

record CuDNNLRNOp =
  data_desc :: "TensorDesc option"
  norm_desc :: LRNDesc
  cudnn_input_dims :: "int list"
  size_arg :: int
  alpha_arg :: real
  beta_arg :: real
  bias_arg :: real

type_synonym CuDNNLRNGradientOp = CuDNNLRNOp

text \<open>
  What an invocation works on: the operator itself, the tensor \<^verbatim>\<open>Output(0)\<close>, the
  log of vendor calls, and the log of the instantiations \<^verbatim>\<open>DoRunWithType<T, M>\<close>
  that were entered.
\<close>

record ctx =
  self :: CuDNNLRNOp
  Output0 :: Tensor
  calls :: "cudnnCall list"
  runs :: "(ctype \<times> ctype) list"

text \<open>
  \<^verbatim>\<open>CUDNN_ENFORCE\<close>: issue the call, log it, and raise unless the status is success.
\<close>

definition CUDNN_ENFORCE :: "vendor \<Rightarrow> cudnnCall \<Rightarrow> ctx \<Rightarrow> (error + unit) \<times> ctx" where
  "CUDNN_ENFORCE v cl s =
     (let status = v (calls s) cl;
          s' = s\<lparr>calls := calls s @ [cl]\<rparr>
      in if status = CUDNN_STATUS_SUCCESS then (Inr (), s') else (Inl (CudnnError status), s'))"

subsection \<open>Construction\<close>

text \<open>
  Modelled from the spec: the operator definition and \<^verbatim>\<open>GetSingleArgument\<close>
  (\<^verbatim>\<open>caffe2/core/operator.h\<close>, not among the sources): a configuration record of
  named numeric options, each read with a default for when it is absent.
\<close>

record OperatorDef =
  int_args :: "string \<rightharpoonup> int"
  float_args :: "string \<rightharpoonup> real"

definition GetSingleArgument_int :: "OperatorDef \<Rightarrow> string \<Rightarrow> int \<Rightarrow> int" where
  "GetSingleArgument_int operator_def name default_value =
     (case int_args operator_def name of None \<Rightarrow> default_value | Some x \<Rightarrow> x)"

definition GetSingleArgument_float :: "OperatorDef \<Rightarrow> string \<Rightarrow> real \<Rightarrow> real" where
  "GetSingleArgument_float operator_def name default_value =
     (case float_args operator_def name of None \<Rightarrow> default_value | Some x \<Rightarrow> x)"

text \<open>
  The constructor, the same text in both classes: the four arguments are read in the
  initialiser list, then the tensor descriptor is created, the LRN descriptor is created
  and set. A failing call ends the construction; no object exists then, and only the
  log of calls remains.
\<close>

definition CuDNNLRNOp_ctor ::
    "vendor \<Rightarrow> OperatorDef \<Rightarrow> cudnnCall list \<Rightarrow> (error + CuDNNLRNOp) \<times> cudnnCall list" where
  "CuDNNLRNOp_ctor v operator_def tr =
     (let sz = GetSingleArgument_int operator_def ''size'' 0;
          al = GetSingleArgument_float operator_def ''alpha'' 0;
          be = GetSingleArgument_float operator_def ''beta'' 0;
          bi = GetSingleArgument_float operator_def ''bias'' 1;
          st1 = v tr cudnnCreateTensorDescriptor;
          log1 = tr @ [cudnnCreateTensorDescriptor]
      in if st1 \<noteq> CUDNN_STATUS_SUCCESS then (Inl (CudnnError st1), log1)
         else
           let st2 = v log1 cudnnCreateLRNDescriptor;
               log2 = log1 @ [cudnnCreateLRNDescriptor]
           in if st2 \<noteq> CUDNN_STATUS_SUCCESS then (Inl (CudnnError st2), log2)
              else
                let st3 = v log2 (cudnnSetLRNDescriptor sz al be bi);
                    log3 = log2 @ [cudnnSetLRNDescriptor sz al be bi]
                in if st3 \<noteq> CUDNN_STATUS_SUCCESS then (Inl (CudnnError st3), log3)
                   else
                     (Inr \<lparr>data_desc = None,
                           norm_desc = \<lparr>lrnN = sz, lrnAlpha = al, lrnBeta = be, lrnK = bi\<rparr>,
                           cudnn_input_dims = [],
                           size_arg = sz, alpha_arg = al, beta_arg = be, bias_arg = bi\<rparr>,
                      log3))"

definition CuDNNLRNGradientOp_ctor ::
    "vendor \<Rightarrow> OperatorDef \<Rightarrow> cudnnCall list \<Rightarrow> (error + CuDNNLRNGradientOp) \<times> cudnnCall list" where
  "CuDNNLRNGradientOp_ctor v operator_def tr =
     (let sz = GetSingleArgument_int operator_def ''size'' 0;
          al = GetSingleArgument_float operator_def ''alpha'' 0;
          be = GetSingleArgument_float operator_def ''beta'' 0;
          bi = GetSingleArgument_float operator_def ''bias'' 1;
          st1 = v tr cudnnCreateTensorDescriptor;
          log1 = tr @ [cudnnCreateTensorDescriptor]
      in if st1 \<noteq> CUDNN_STATUS_SUCCESS then (Inl (CudnnError st1), log1)
         else
           let st2 = v log1 cudnnCreateLRNDescriptor;
               log2 = log1 @ [cudnnCreateLRNDescriptor]
           in if st2 \<noteq> CUDNN_STATUS_SUCCESS then (Inl (CudnnError st2), log2)
              else
                let st3 = v log2 (cudnnSetLRNDescriptor sz al be bi);
                    log3 = log2 @ [cudnnSetLRNDescriptor sz al be bi]
                in if st3 \<noteq> CUDNN_STATUS_SUCCESS then (Inl (CudnnError st3), log3)
                   else
                     (Inr \<lparr>data_desc = None,
                           norm_desc = \<lparr>lrnN = sz, lrnAlpha = al, lrnBeta = be, lrnK = bi\<rparr>,
                           cudnn_input_dims = [],
                           size_arg = sz, alpha_arg = al, beta_arg = be, bias_arg = bi\<rparr>,
                      log3))"

subsection \<open>The forward operator\<close>

text \<open>
  The block under \<^verbatim>\<open>if (X.dims() != cudnn_input_dims_)\<close>, written once for both
  operators (the backward one runs the same statements on \<open>dY\<close>). The cache is assigned
  first; then come \<^verbatim>\<open>dim32(1)\<close>, \<^verbatim>\<open>dim32(2)\<close>, \<^verbatim>\<open>dim32(3)\<close>, the argument
  \<^verbatim>\<open>dim32(0)\<close> and the vendor call. The descriptor takes its new content when the
  vendor reports success; a call that reports failure is taken to leave it as it was.

  The arguments of a compute call are evaluated before the call is made: a typed read
  pointer that is refused ends the invocation with no compute call. C++ leaves the order
  among the arguments open; they are taken as written, and no property below depends on
  the order.
\<close>

definition set_descriptors :: "vendor \<Rightarrow> ctype \<Rightarrow> Tensor \<Rightarrow> ctx \<Rightarrow> (error + unit) \<times> ctx" where
  "set_descriptors v T X s =
     (let s1 = s\<lparr>self := (self s)\<lparr>cudnn_input_dims := dims X\<rparr>\<rparr>
      in case dim32 X 1 of Inl e \<Rightarrow> (Inl e, s1) | Inr C \<Rightarrow>
         (case dim32 X 2 of Inl e \<Rightarrow> (Inl e, s1) | Inr H \<Rightarrow>
         (case dim32 X 3 of Inl e \<Rightarrow> (Inl e, s1) | Inr W \<Rightarrow>
         (case dim32 X 0 of Inl e \<Rightarrow> (Inl e, s1) | Inr N \<Rightarrow>
            (let d = \<lparr>format = CUDNN_TENSOR_NCHW, dataType = cudnnTypeWrapper_type T,
                      dim_n = N, dim_c = C, dim_h = H, dim_w = W\<rparr>
             in case CUDNN_ENFORCE v (cudnnSetTensor4dDescriptor d) s1 of
                  (Inl e, s2) \<Rightarrow> (Inl e, s2)
                | (Inr u, s2) \<Rightarrow> (Inr (), s2\<lparr>self := (self s2)\<lparr>data_desc := Some d\<rparr>\<rparr>))))))"

definition CuDNNLRNOp_DoRunWithType ::
    "vendor \<Rightarrow> ctype \<Rightarrow> ctype \<Rightarrow> Tensor \<Rightarrow> ctx \<Rightarrow> (error + bool) \<times> ctx" where
  "CuDNNLRNOp_DoRunWithType v T M X s0 =
     (let s = s0\<lparr>runs := runs s0 @ [(T, M)]\<rparr>
      in case (if dims X \<noteq> cudnn_input_dims (self s) then set_descriptors v T X s
               else (Inr (), s)) of
           (Inl e, s1) \<Rightarrow> (Inl e, s1)
         | (Inr u, s1) \<Rightarrow>
             (case data X T of
                Inl e \<Rightarrow> (Inl e, s1)
              | Inr px \<Rightarrow>
                  (let (py, Y') = mutable_data (Output0 s1) T;
                       s2 = s1\<lparr>Output0 := Y'\<rparr>
                   in case CUDNN_ENFORCE v
                             (cudnnLRNCrossChannelForward (norm_desc (self s2))
                                CUDNN_LRN_CROSS_CHANNEL_DIM1
                                (kOne T) (data_desc (self s2)) px
                                (kZero T) (data_desc (self s2)) py) s2 of
                        (Inl e, s3) \<Rightarrow> (Inl e, s3)
                      | (Inr u', s3) \<Rightarrow> (Inr True, s3))))"

definition CuDNNLRNOp_RunOnDevice :: "vendor \<Rightarrow> Tensor \<Rightarrow> ctx \<Rightarrow> (error + bool) \<times> ctx" where
  "CuDNNLRNOp_RunOnDevice v X s0 =
     (let s = s0\<lparr>Output0 := ResizeLike (Output0 s0) X\<rparr>
      in if IsType X T_float then CuDNNLRNOp_DoRunWithType v T_float T_float X s
         else if IsType X T_float16 then CuDNNLRNOp_DoRunWithType v T_float16 T_float X s
         else (Inl Unsupported_input_type, s))"

subsection \<open>The backward operator\<close>

definition CuDNNLRNGradientOp_DoRunWithType ::
    "vendor \<Rightarrow> ctype \<Rightarrow> ctype \<Rightarrow> Tensor \<Rightarrow> Tensor \<Rightarrow> Tensor \<Rightarrow> ctx \<Rightarrow> (error + bool) \<times> ctx" where
  "CuDNNLRNGradientOp_DoRunWithType v T M X Y dY s0 =
     (let s = s0\<lparr>runs := runs s0 @ [(T, M)]\<rparr>
      in case (if dims dY \<noteq> cudnn_input_dims (self s) then set_descriptors v T dY s
               else (Inr (), s)) of
           (Inl e, s1) \<Rightarrow> (Inl e, s1)
         | (Inr u, s1) \<Rightarrow>
             (case data Y T of Inl e \<Rightarrow> (Inl e, s1) | Inr py \<Rightarrow>
             (case data dY T of Inl e \<Rightarrow> (Inl e, s1) | Inr pdy \<Rightarrow>
             (case data X T of Inl e \<Rightarrow> (Inl e, s1) | Inr px \<Rightarrow>
                (let (pdx, dX') = mutable_data (Output0 s1) T;
                     s2 = s1\<lparr>Output0 := dX'\<rparr>
                 in case CUDNN_ENFORCE v
                           (cudnnLRNCrossChannelBackward (norm_desc (self s2))
                              CUDNN_LRN_CROSS_CHANNEL_DIM1
                              (kOne T)
                              (data_desc (self s2)) py
                              (data_desc (self s2)) pdy
                              (data_desc (self s2)) px
                              (kZero T)
                              (data_desc (self s2)) pdx) s2 of
                      (Inl e, s3) \<Rightarrow> (Inl e, s3)
                    | (Inr u', s3) \<Rightarrow> (Inr True, s3))))))"

definition CuDNNLRNGradientOp_RunOnDevice ::
    "vendor \<Rightarrow> Tensor \<Rightarrow> Tensor \<Rightarrow> Tensor \<Rightarrow> ctx \<Rightarrow> (error + bool) \<times> ctx" where
  "CuDNNLRNGradientOp_RunOnDevice v X Y dY s0 =
     (let s = s0\<lparr>Output0 := ResizeLike (Output0 s0) dY\<rparr>
      in if IsType dY T_float then CuDNNLRNGradientOp_DoRunWithType v T_float T_float X Y dY s
         else if IsType dY T_float16 then
           CuDNNLRNGradientOp_DoRunWithType v T_float16 T_float X Y dY s
         else (Inl Unsupported_input_type, s))"

subsection \<open>Vocabulary of the properties\<close>

text \<open>The vendor calls made between two states of one run.\<close>

definition issued :: "ctx \<Rightarrow> ctx \<Rightarrow> cudnnCall list" where
  "issued s s' = drop (length (calls s)) (calls s')"

text \<open>The instantiations entered between two states of one run.\<close>

definition entered :: "ctx \<Rightarrow> ctx \<Rightarrow> (ctype \<times> ctype) list" where
  "entered s s' = drop (length (runs s)) (runs s')"

text \<open>
  The layout a tensor of element type \<open>T\<close> calls for: batch, channel, height and width
  from dimensions 0 to 3, in NCHW order.
\<close>

definition layout_of :: "ctype \<Rightarrow> Tensor \<Rightarrow> TensorDesc" where
  "layout_of T X =
     \<lparr>format = CUDNN_TENSOR_NCHW, dataType = cudnnTypeWrapper_type T,
      dim_n = dims X ! 0, dim_c = dims X ! 1, dim_h = dims X ! 2, dim_w = dims X ! 3\<rparr>"

text \<open>The shape a tensor descriptor holds; a descriptor never set holds none.\<close>

definition desc_shape :: "TensorDesc option \<Rightarrow> int list option" where
  "desc_shape od =
     (case od of None \<Rightarrow> None | Some d \<Rightarrow> Some [dim_n d, dim_c d, dim_h d, dim_w d])"

text \<open>A supported element kind: single or half precision.\<close>

definition supported :: "Tensor \<Rightarrow> bool" where
  "supported X = (IsType X T_float \<or> IsType X T_float16)"

text \<open>The element type the dispatch instantiates for a supported tensor.\<close>

definition ctype_of :: "Tensor \<Rightarrow> ctype" where
  "ctype_of X = (if IsType X T_float then T_float else T_float16)"

text \<open>The state an operator is first invoked in.\<close>

definition start :: "CuDNNLRNOp \<Rightarrow> Tensor \<Rightarrow> cudnnCall list \<Rightarrow> ctx" where
  "start this Y tr = \<lparr>self = this, Output0 = Y, calls = tr, runs = []\<rparr>"

text \<open>Two vendors to run the operators against: one that accepts every call, \<dots>\<close>

definition cudnn_accepts :: vendor where
  "cudnn_accepts tr cl = CUDNN_STATUS_SUCCESS"

text \<open>
  \<dots> and one that rejects a tensor layout with a dimension that is not positive, which
  is when cuDNN documents \<^verbatim>\<open>CUDNN_STATUS_BAD_PARAM\<close> for
  \<^verbatim>\<open>cudnnSetTensor4dDescriptor\<close>, and accepts every other call.
\<close>

definition cudnn_checks_layout :: vendor where
  "cudnn_checks_layout tr cl =
     (case cl of
        cudnnSetTensor4dDescriptor d \<Rightarrow>
          (if dim_n d \<le> 0 \<or> dim_c d \<le> 0 \<or> dim_h d \<le> 0 \<or> dim_w d \<le> 0
           then CUDNN_STATUS_BAD_PARAM else CUDNN_STATUS_SUCCESS)
      | _ \<Rightarrow> CUDNN_STATUS_SUCCESS)"

text \<open>The compute call of the forward operator, as a function of what it is given.\<close>

definition forward_call :: "CuDNNLRNOp \<Rightarrow> ctype \<Rightarrow> Tensor \<Rightarrow> Tensor \<Rightarrow> cudnnCall" where
  "forward_call this T X Y =
     cudnnLRNCrossChannelForward (norm_desc this) CUDNN_LRN_CROSS_CHANNEL_DIM1
       (kOne T) (data_desc this) (Ptr T (raw X)) (kZero T) (data_desc this) (Ptr T (raw Y))"

text \<open>The compute call of the backward operator.\<close>

definition backward_call ::
    "CuDNNLRNOp \<Rightarrow> ctype \<Rightarrow> Tensor \<Rightarrow> Tensor \<Rightarrow> Tensor \<Rightarrow> Tensor \<Rightarrow> cudnnCall" where
  "backward_call this T X Y dY dX =
     cudnnLRNCrossChannelBackward (norm_desc this) CUDNN_LRN_CROSS_CHANNEL_DIM1
       (kOne T)
       (data_desc this) (Ptr T (raw Y))
       (data_desc this) (Ptr T (raw dY))
       (data_desc this) (Ptr T (raw X))
       (kZero T)
       (data_desc this) (Ptr T (raw dX))"

text \<open>
  The configuration of the end-to-end scenarios (size 5, alpha 0.0001, beta 0.75, bias 1),
  the operator it constructs, and a tensor by its parts.
\<close>

definition lrn_config :: OperatorDef where
  "lrn_config =
     \<lparr>int_args = [''size'' \<mapsto> 5],
      float_args = [''alpha'' \<mapsto> 1 / 10000, ''beta'' \<mapsto> 3 / 4, ''bias'' \<mapsto> 1]\<rparr>"

definition lrn_op :: CuDNNLRNOp where
  "lrn_op =
     \<lparr>data_desc = None,
      norm_desc = \<lparr>lrnN = 5, lrnAlpha = 1 / 10000, lrnBeta = 3 / 4, lrnK = 1\<rparr>,
      cudnn_input_dims = [],
      size_arg = 5, alpha_arg = 1 / 10000, beta_arg = 3 / 4, bias_arg = 1\<rparr>"

definition tensor :: "int list \<Rightarrow> TypeMeta \<Rightarrow> nat \<Rightarrow> Tensor" where
  "tensor ds k b = \<lparr>dims = ds, meta = k, raw = b\<rparr>"

text \<open>
  The cache and the tensor descriptor agree: the descriptor was never set and the cache is
  empty, or the descriptor holds the four cached sizes.
\<close>

definition coherent :: "CuDNNLRNOp \<Rightarrow> bool" where
  "coherent this =
     (case data_desc this of
        None \<Rightarrow> cudnn_input_dims this = []
      | Some d \<Rightarrow> cudnn_input_dims this = [dim_n d, dim_c d, dim_h d, dim_w d])"

text \<open>
  A run of the forward operator against the vendor that checks layouts: first a batch of
  shape (2, 8, 4, 4), then an empty batch of shape (0, 8, 4, 4), whose layout the vendor
  rejects.
\<close>

definition after_batch :: ctx where
  "after_batch =
     snd (CuDNNLRNOp_RunOnDevice cudnn_checks_layout (tensor [2, 8, 4, 4] Float 1)
            (start lrn_op (tensor [] Float 2) []))"

definition after_rejected :: ctx where
  "after_rejected =
     snd (CuDNNLRNOp_RunOnDevice cudnn_checks_layout (tensor [0, 8, 4, 4] Float 3) after_batch)"

text \<open>The same two invocations of the backward operator, the shapes being those of \<open>dY\<close>.\<close>

definition grad_after_batch :: ctx where
  "grad_after_batch =
     snd (CuDNNLRNGradientOp_RunOnDevice cudnn_checks_layout (tensor [2, 8, 4, 4] Float 1)
            (tensor [2, 8, 4, 4] Float 3) (tensor [2, 8, 4, 4] Float 4)
            (start lrn_op (tensor [] Float 2) []))"

definition grad_after_rejected :: ctx where
  "grad_after_rejected =
     snd (CuDNNLRNGradientOp_RunOnDevice cudnn_checks_layout (tensor [0, 8, 4, 4] Float 5)
            (tensor [0, 8, 4, 4] Float 6) (tensor [0, 8, 4, 4] Float 7) grad_after_batch)"


section \<open>Properties\<close>

subsection \<open>What each step does\<close>

lemma set_descriptors_rank4:
  "rank4 X \<Longrightarrow> set_descriptors v T X s =
     (let d = layout_of T X;
          s1 = s\<lparr>self := (self s)\<lparr>cudnn_input_dims := dims X\<rparr>,
                 calls := calls s @ [cudnnSetTensor4dDescriptor d]\<rparr>
      in if v (calls s) (cudnnSetTensor4dDescriptor d) = CUDNN_STATUS_SUCCESS
         then (Inr (), s1\<lparr>self := (self s1)\<lparr>data_desc := Some d\<rparr>\<rparr>)
         else (Inl (CudnnError (v (calls s) (cudnnSetTensor4dDescriptor d))), s1))"
  by (auto simp: rank4_def set_descriptors_def dim32_def layout_of_def CUDNN_ENFORCE_def Let_def
      list_all_length)

lemma set_descriptors_effect:
  "set_descriptors v T X s = (r, s') \<Longrightarrow>
     cudnn_input_dims (self s') = dims X \<and>
     norm_desc (self s') = norm_desc (self s) \<and>
     size_arg (self s') = size_arg (self s) \<and> alpha_arg (self s') = alpha_arg (self s) \<and>
     beta_arg (self s') = beta_arg (self s) \<and> bias_arg (self s') = bias_arg (self s) \<and>
     Output0 s' = Output0 s \<and> runs s' = runs s \<and> r \<noteq> Inl Unsupported_input_type \<and>
     (\<exists>cs. calls s' = calls s @ cs \<and> list_all is_set_layout cs)"
  by (auto simp: set_descriptors_def CUDNN_ENFORCE_def dim32_def Let_def split: sum.splits if_splits)

lemma forward_typed_effect:
  "CuDNNLRNOp_DoRunWithType v T M X s = (r, s') \<Longrightarrow>
     cudnn_input_dims (self s') = dims X \<and>
     norm_desc (self s') = norm_desc (self s) \<and>
     size_arg (self s') = size_arg (self s) \<and> alpha_arg (self s') = alpha_arg (self s) \<and>
     beta_arg (self s') = beta_arg (self s) \<and> bias_arg (self s') = bias_arg (self s) \<and>
     dims (Output0 s') = dims (Output0 s) \<and> runs s' = runs s @ [(T, M)] \<and>
     r \<noteq> Inl Unsupported_input_type \<and>
     (\<exists>cs. calls s' = calls s @ cs \<and> list_all (\<lambda>c. is_set_layout c \<or> is_compute c) cs)"
  apply (simp add: CuDNNLRNOp_DoRunWithType_def Let_def split: if_splits prod.splits sum.splits)
  apply (auto dest!: set_descriptors_effect
      simp: CUDNN_ENFORCE_def mutable_data_def data_def Let_def list_all_iff
      split: if_splits)
  done

lemma backward_typed_effect:
  "CuDNNLRNGradientOp_DoRunWithType v T M X Y dY s = (r, s') \<Longrightarrow>
     cudnn_input_dims (self s') = dims dY \<and>
     norm_desc (self s') = norm_desc (self s) \<and>
     size_arg (self s') = size_arg (self s) \<and> alpha_arg (self s') = alpha_arg (self s) \<and>
     beta_arg (self s') = beta_arg (self s) \<and> bias_arg (self s') = bias_arg (self s) \<and>
     dims (Output0 s') = dims (Output0 s) \<and> runs s' = runs s @ [(T, M)] \<and>
     r \<noteq> Inl Unsupported_input_type \<and>
     (\<exists>cs. calls s' = calls s @ cs \<and> list_all (\<lambda>c. is_set_layout c \<or> is_compute c) cs)"
  apply (simp add: CuDNNLRNGradientOp_DoRunWithType_def Let_def split: if_splits prod.splits sum.splits)
  apply (auto dest!: set_descriptors_effect
      simp: CUDNN_ENFORCE_def mutable_data_def data_def Let_def list_all_iff
      split: if_splits)
  done

lemma forward_dispatch:
  "supported X \<Longrightarrow>
   CuDNNLRNOp_RunOnDevice v X s =
     CuDNNLRNOp_DoRunWithType v (ctype_of X) T_float X
       (s\<lparr>Output0 := ResizeLike (Output0 s) X\<rparr>)"
  by (auto simp: CuDNNLRNOp_RunOnDevice_def supported_def ctype_of_def Let_def)

lemma forward_rejects:
  "\<not> supported X \<Longrightarrow>
   CuDNNLRNOp_RunOnDevice v X s =
     (Inl Unsupported_input_type, s\<lparr>Output0 := ResizeLike (Output0 s) X\<rparr>)"
  by (auto simp: CuDNNLRNOp_RunOnDevice_def supported_def Let_def)

lemma backward_dispatch:
  "supported dY \<Longrightarrow>
   CuDNNLRNGradientOp_RunOnDevice v X Y dY s =
     CuDNNLRNGradientOp_DoRunWithType v (ctype_of dY) T_float X Y dY
       (s\<lparr>Output0 := ResizeLike (Output0 s) dY\<rparr>)"
  by (auto simp: CuDNNLRNGradientOp_RunOnDevice_def supported_def ctype_of_def Let_def)

lemma backward_rejects:
  "\<not> supported dY \<Longrightarrow>
   CuDNNLRNGradientOp_RunOnDevice v X Y dY s =
     (Inl Unsupported_input_type, s\<lparr>Output0 := ResizeLike (Output0 s) dY\<rparr>)"
  by (auto simp: CuDNNLRNGradientOp_RunOnDevice_def supported_def Let_def)

lemma forward_typed_runs:
  "runs (snd (CuDNNLRNOp_DoRunWithType v T M X s)) = runs s @ [(T, M)]"
  using forward_typed_effect [of v T M X s] by (cases "CuDNNLRNOp_DoRunWithType v T M X s") simp

lemma backward_typed_runs:
  "runs (snd (CuDNNLRNGradientOp_DoRunWithType v T M X Y dY s)) = runs s @ [(T, M)]"
  using backward_typed_effect [of v T M X Y dY s]
  by (cases "CuDNNLRNGradientOp_DoRunWithType v T M X Y dY s") simp

lemma forward_output_dims:
  "dims (Output0 (snd (CuDNNLRNOp_RunOnDevice v X s))) = dims X"
proof (cases "supported X")
  case True
  obtain r s' where run: "CuDNNLRNOp_DoRunWithType v (ctype_of X) T_float X
      (s\<lparr>Output0 := ResizeLike (Output0 s) X\<rparr>) = (r, s')"
    by (cases "CuDNNLRNOp_DoRunWithType v (ctype_of X) T_float X
      (s\<lparr>Output0 := ResizeLike (Output0 s) X\<rparr>)")
  from forward_typed_effect [OF run] have "dims (Output0 s') = dims X"
    by (simp add: ResizeLike_def)
  with run True show ?thesis by (simp add: forward_dispatch)
next
  case False
  then show ?thesis by (simp add: forward_rejects ResizeLike_def)
qed

lemma backward_output_dims:
  "dims (Output0 (snd (CuDNNLRNGradientOp_RunOnDevice v X Y dY s))) = dims dY"
proof (cases "supported dY")
  case True
  obtain r s' where run: "CuDNNLRNGradientOp_DoRunWithType v (ctype_of dY) T_float X Y dY
      (s\<lparr>Output0 := ResizeLike (Output0 s) dY\<rparr>) = (r, s')"
    by (cases "CuDNNLRNGradientOp_DoRunWithType v (ctype_of dY) T_float X Y dY
      (s\<lparr>Output0 := ResizeLike (Output0 s) dY\<rparr>)")
  from backward_typed_effect [OF run] have "dims (Output0 s') = dims dY"
    by (simp add: ResizeLike_def)
  with run True show ?thesis by (simp add: backward_dispatch)
next
  case False
  then show ?thesis by (simp add: backward_rejects ResizeLike_def)
qed

lemma forward_typed_hit:
  "IsType X T \<Longrightarrow> dims X = cudnn_input_dims (self s) \<Longrightarrow>
   CuDNNLRNOp_DoRunWithType v T M X s =
     (let cl = forward_call (self s) T X (Output0 s);
          st = v (calls s) cl
      in (if st = CUDNN_STATUS_SUCCESS then Inr True else Inl (CudnnError st),
          s\<lparr>Output0 := (Output0 s)\<lparr>meta := Make T\<rparr>, calls := calls s @ [cl],
            runs := runs s @ [(T, M)]\<rparr>))"
  by (simp add: CuDNNLRNOp_DoRunWithType_def Let_def CUDNN_ENFORCE_def mutable_data_def
      forward_call_def data_def)

lemma forward_typed_miss:
  "IsType X T \<Longrightarrow> dims X \<noteq> cudnn_input_dims (self s) \<Longrightarrow> rank4 X \<Longrightarrow>
   CuDNNLRNOp_DoRunWithType v T M X s =
     (let d = layout_of T X;
          st1 = v (calls s) (cudnnSetTensor4dDescriptor d);
          s1 = s\<lparr>self := (self s)\<lparr>cudnn_input_dims := dims X\<rparr>,
                 calls := calls s @ [cudnnSetTensor4dDescriptor d],
                 runs := runs s @ [(T, M)]\<rparr>
      in if st1 \<noteq> CUDNN_STATUS_SUCCESS then (Inl (CudnnError st1), s1)
         else
           let this = (self s1)\<lparr>data_desc := Some d\<rparr>;
               cl = forward_call this T X (Output0 s);
               st = v (calls s1) cl
           in (if st = CUDNN_STATUS_SUCCESS then Inr True else Inl (CudnnError st),
               s1\<lparr>self := this, Output0 := (Output0 s)\<lparr>meta := Make T\<rparr>,
                  calls := calls s1 @ [cl]\<rparr>))"
  by (simp add: CuDNNLRNOp_DoRunWithType_def Let_def CUDNN_ENFORCE_def mutable_data_def
      forward_call_def data_def set_descriptors_rank4)

lemma backward_typed_hit:
  "IsType X T \<Longrightarrow> IsType Y T \<Longrightarrow> IsType dY T \<Longrightarrow>
   dims dY = cudnn_input_dims (self s) \<Longrightarrow>
   CuDNNLRNGradientOp_DoRunWithType v T M X Y dY s =
     (let cl = backward_call (self s) T X Y dY (Output0 s);
          st = v (calls s) cl
      in (if st = CUDNN_STATUS_SUCCESS then Inr True else Inl (CudnnError st),
          s\<lparr>Output0 := (Output0 s)\<lparr>meta := Make T\<rparr>, calls := calls s @ [cl],
            runs := runs s @ [(T, M)]\<rparr>))"
  by (simp add: CuDNNLRNGradientOp_DoRunWithType_def Let_def CUDNN_ENFORCE_def mutable_data_def
      backward_call_def data_def)


lemma supported_IsType: "supported X \<Longrightarrow> IsType X (ctype_of X)"
  by (auto simp: supported_def ctype_of_def)

lemma same_kind_IsType: "supported dY \<Longrightarrow> meta X = meta dY \<Longrightarrow> IsType X (ctype_of dY)"
  by (auto simp: supported_def ctype_of_def IsType_def)

lemma forward_hit:
  "supported X \<Longrightarrow> dims X = cudnn_input_dims (self s) \<Longrightarrow>
   issued s (snd (CuDNNLRNOp_RunOnDevice v X s)) =
     [forward_call (self s) (ctype_of X) X (Output0 s)]
   \<and> self (snd (CuDNNLRNOp_RunOnDevice v X s)) = self s"
  by (simp add: forward_dispatch forward_typed_hit supported_IsType Let_def issued_def
      forward_call_def ResizeLike_def)

lemma backward_hit:
  "supported dY \<Longrightarrow> meta X = meta dY \<Longrightarrow> meta Y = meta dY \<Longrightarrow>
   dims dY = cudnn_input_dims (self s) \<Longrightarrow>
   issued s (snd (CuDNNLRNGradientOp_RunOnDevice v X Y dY s)) =
     [backward_call (self s) (ctype_of dY) X Y dY (Output0 s)]
   \<and> self (snd (CuDNNLRNGradientOp_RunOnDevice v X Y dY s)) = self s"
  by (simp add: backward_dispatch backward_typed_hit supported_IsType same_kind_IsType Let_def
      issued_def backward_call_def ResizeLike_def)

lemma forward_miss:
  "supported X \<Longrightarrow> rank4 X \<Longrightarrow> dims X \<noteq> cudnn_input_dims (self s) \<Longrightarrow>
   issued s (snd (CuDNNLRNOp_RunOnDevice v X s)) =
     (if v (calls s) (cudnnSetTensor4dDescriptor (layout_of (ctype_of X) X))
           = CUDNN_STATUS_SUCCESS
      then [cudnnSetTensor4dDescriptor (layout_of (ctype_of X) X),
            forward_call ((self s)\<lparr>cudnn_input_dims := dims X,
               data_desc := Some (layout_of (ctype_of X) X)\<rparr>) (ctype_of X) X (Output0 s)]
      else [cudnnSetTensor4dDescriptor (layout_of (ctype_of X) X)])
   \<and> self (snd (CuDNNLRNOp_RunOnDevice v X s)) =
     (if v (calls s) (cudnnSetTensor4dDescriptor (layout_of (ctype_of X) X))
           = CUDNN_STATUS_SUCCESS
      then (self s)\<lparr>cudnn_input_dims := dims X,
               data_desc := Some (layout_of (ctype_of X) X)\<rparr>
      else (self s)\<lparr>cudnn_input_dims := dims X\<rparr>)"
  by (simp add: forward_dispatch forward_typed_miss supported_IsType Let_def issued_def
      forward_call_def ResizeLike_def)


lemma forward_cache_after:
  "supported X \<Longrightarrow> cudnn_input_dims (self (snd (CuDNNLRNOp_RunOnDevice v X s))) = dims X"
  using forward_typed_effect [of v "ctype_of X" T_float X
      "s\<lparr>Output0 := ResizeLike (Output0 s) X\<rparr>"]
  by (cases "CuDNNLRNOp_DoRunWithType v (ctype_of X) T_float X
      (s\<lparr>Output0 := ResizeLike (Output0 s) X\<rparr>)") (simp add: forward_dispatch)

lemma forward_set_layout_needs_miss:
  "list_ex is_set_layout (issued s (snd (CuDNNLRNOp_RunOnDevice v X s))) \<Longrightarrow>
   dims X \<noteq> cudnn_input_dims (self s)"
proof
  assume ex: "list_ex is_set_layout (issued s (snd (CuDNNLRNOp_RunOnDevice v X s)))"
    and same: "dims X = cudnn_input_dims (self s)"
  show False
  proof (cases "supported X")
    case True
    from forward_hit [OF True same, of v] ex show False
      by (simp add: forward_call_def)
  next
    case False
    with ex show False by (simp add: forward_rejects issued_def)
  qed
qed

lemma set_layout_not_compute: "is_set_layout cl \<Longrightarrow> \<not> is_compute cl"
  by (cases cl) simp_all

lemma backward_typed_on_hit:
  "dims dY = cudnn_input_dims (self s) \<Longrightarrow>
   CuDNNLRNGradientOp_DoRunWithType v T M X Y dY s = (r, s') \<Longrightarrow>
   self s' = self s \<and> (\<exists>cs. calls s' = calls s @ cs \<and> list_all is_compute cs)"
  by (auto simp: CuDNNLRNGradientOp_DoRunWithType_def CUDNN_ENFORCE_def mutable_data_def
      data_def Let_def split: if_splits)

lemma backward_typed_on_miss:
  "dims dY \<noteq> cudnn_input_dims (self s) \<Longrightarrow> rank4 dY \<Longrightarrow>
   CuDNNLRNGradientOp_DoRunWithType v T M X Y dY s = (r, s') \<Longrightarrow>
   \<exists>cs. calls s' = calls s @ cudnnSetTensor4dDescriptor (layout_of T dY) # cs"
  by (auto simp: CuDNNLRNGradientOp_DoRunWithType_def set_descriptors_rank4 CUDNN_ENFORCE_def
      mutable_data_def data_def Let_def split: if_splits)

lemma backward_set_layout_needs_miss:
  "list_ex is_set_layout (issued s (snd (CuDNNLRNGradientOp_RunOnDevice v X Y dY s))) \<Longrightarrow>
   dims dY \<noteq> cudnn_input_dims (self s)"
proof
  assume ex: "list_ex is_set_layout
      (issued s (snd (CuDNNLRNGradientOp_RunOnDevice v X Y dY s)))"
    and same: "dims dY = cudnn_input_dims (self s)"
  show False
  proof (cases "supported dY")
    case True
    obtain r s' where run: "CuDNNLRNGradientOp_DoRunWithType v (ctype_of dY) T_float X Y dY
        (s\<lparr>Output0 := ResizeLike (Output0 s) dY\<rparr>) = (r, s')"
      by (cases "CuDNNLRNGradientOp_DoRunWithType v (ctype_of dY) T_float X Y dY
        (s\<lparr>Output0 := ResizeLike (Output0 s) dY\<rparr>)")
    from same have "dims dY = cudnn_input_dims (self (s\<lparr>Output0 := ResizeLike (Output0 s) dY\<rparr>))"
      by simp
    from backward_typed_on_hit [OF this run] obtain cs
      where "calls s' = calls s @ cs" and "list_all is_compute cs"
      by auto
    with ex True run show False
      by (auto simp: backward_dispatch issued_def list_all_iff list_ex_iff
          dest: set_layout_not_compute)
  next
    case False
    with ex show False by (simp add: backward_rejects issued_def)
  qed
qed

lemma backward_miss_first:
  assumes "supported dY" and "rank4 dY" and "dims dY \<noteq> cudnn_input_dims (self s)"
  shows "take 1 (issued s (snd (CuDNNLRNGradientOp_RunOnDevice v X Y dY s))) =
    [cudnnSetTensor4dDescriptor (layout_of (ctype_of dY) dY)]"
proof -
  obtain r s' where run: "CuDNNLRNGradientOp_DoRunWithType v (ctype_of dY) T_float X Y dY
      (s\<lparr>Output0 := ResizeLike (Output0 s) dY\<rparr>) = (r, s')"
    by (cases "CuDNNLRNGradientOp_DoRunWithType v (ctype_of dY) T_float X Y dY
      (s\<lparr>Output0 := ResizeLike (Output0 s) dY\<rparr>)")
  from assms(3)
  have "dims dY \<noteq> cudnn_input_dims (self (s\<lparr>Output0 := ResizeLike (Output0 s) dY\<rparr>))"
    by simp
  from backward_typed_on_miss [OF this assms(2) run] assms(1) run show ?thesis
    by (auto simp: backward_dispatch issued_def)
qed

lemma data_ignores_shape: "data (X\<lparr>dims := ds\<rparr>) T = data X T"
  by (simp add: data_def IsType_def)

lemma backward_ignores_shapes:
  "CuDNNLRNGradientOp_RunOnDevice v (X\<lparr>dims := dsx\<rparr>) (Y\<lparr>dims := dsy\<rparr>) dY s =
     CuDNNLRNGradientOp_RunOnDevice v X Y dY s"
  unfolding CuDNNLRNGradientOp_RunOnDevice_def CuDNNLRNGradientOp_DoRunWithType_def
    data_ignores_shape
  by (rule refl)



lemma not_norm_call: "is_set_layout cl \<or> is_compute cl \<Longrightarrow> \<not> is_norm_call cl"
  by (cases cl) simp_all

lemma forward_frame:
  "size_arg (self (snd (CuDNNLRNOp_RunOnDevice v X s))) = size_arg (self s)
   \<and> alpha_arg (self (snd (CuDNNLRNOp_RunOnDevice v X s))) = alpha_arg (self s)
   \<and> beta_arg (self (snd (CuDNNLRNOp_RunOnDevice v X s))) = beta_arg (self s)
   \<and> bias_arg (self (snd (CuDNNLRNOp_RunOnDevice v X s))) = bias_arg (self s)
   \<and> norm_desc (self (snd (CuDNNLRNOp_RunOnDevice v X s))) = norm_desc (self s)
   \<and> \<not> list_ex is_norm_call (issued s (snd (CuDNNLRNOp_RunOnDevice v X s)))"
proof (cases "supported X")
  case True
  obtain r s' where run: "CuDNNLRNOp_DoRunWithType v (ctype_of X) T_float X
      (s\<lparr>Output0 := ResizeLike (Output0 s) X\<rparr>) = (r, s')"
    by (cases "CuDNNLRNOp_DoRunWithType v (ctype_of X) T_float X
      (s\<lparr>Output0 := ResizeLike (Output0 s) X\<rparr>)")
  from forward_typed_effect [OF run] True run show ?thesis
    by (auto simp: forward_dispatch issued_def list_all_iff list_ex_iff)
      (use not_norm_call in blast)
next
  case False
  then show ?thesis by (simp add: forward_rejects issued_def)
qed

lemma backward_frame:
  "size_arg (self (snd (CuDNNLRNGradientOp_RunOnDevice v X Y dY s))) = size_arg (self s)
   \<and> alpha_arg (self (snd (CuDNNLRNGradientOp_RunOnDevice v X Y dY s))) = alpha_arg (self s)
   \<and> beta_arg (self (snd (CuDNNLRNGradientOp_RunOnDevice v X Y dY s))) = beta_arg (self s)
   \<and> bias_arg (self (snd (CuDNNLRNGradientOp_RunOnDevice v X Y dY s))) = bias_arg (self s)
   \<and> norm_desc (self (snd (CuDNNLRNGradientOp_RunOnDevice v X Y dY s))) = norm_desc (self s)
   \<and> \<not> list_ex is_norm_call (issued s (snd (CuDNNLRNGradientOp_RunOnDevice v X Y dY s)))"
proof (cases "supported dY")
  case True
  obtain r s' where run: "CuDNNLRNGradientOp_DoRunWithType v (ctype_of dY) T_float X Y dY
      (s\<lparr>Output0 := ResizeLike (Output0 s) dY\<rparr>) = (r, s')"
    by (cases "CuDNNLRNGradientOp_DoRunWithType v (ctype_of dY) T_float X Y dY
      (s\<lparr>Output0 := ResizeLike (Output0 s) dY\<rparr>)")
  from backward_typed_effect [OF run] True run show ?thesis
    by (auto simp: backward_dispatch issued_def list_all_iff list_ex_iff)
      (use not_norm_call in blast)
next
  case False
  then show ?thesis by (simp add: backward_rejects issued_def)
qed

lemma ctor_result:
  "fst (CuDNNLRNOp_ctor v operator_def tr) = Inr this \<Longrightarrow>
   size_arg this = (case int_args operator_def ''size'' of None \<Rightarrow> 0 | Some x \<Rightarrow> x)
   \<and> alpha_arg this = (case float_args operator_def ''alpha'' of None \<Rightarrow> 0 | Some x \<Rightarrow> x)
   \<and> beta_arg this = (case float_args operator_def ''beta'' of None \<Rightarrow> 0 | Some x \<Rightarrow> x)
   \<and> bias_arg this = (case float_args operator_def ''bias'' of None \<Rightarrow> 1 | Some x \<Rightarrow> x)
   \<and> norm_desc this =
       \<lparr>lrnN = size_arg this, lrnAlpha = alpha_arg this, lrnBeta = beta_arg this,
        lrnK = bias_arg this\<rparr>
   \<and> data_desc this = None \<and> cudnn_input_dims this = []
   \<and> snd (CuDNNLRNOp_ctor v operator_def tr) =
       tr @ [cudnnCreateTensorDescriptor, cudnnCreateLRNDescriptor,
             cudnnSetLRNDescriptor (size_arg this) (alpha_arg this) (beta_arg this)
               (bias_arg this)]"
  by (auto simp: CuDNNLRNOp_ctor_def GetSingleArgument_int_def GetSingleArgument_float_def
      Let_def split: if_splits)

lemma ctor_reads_four:
  "int_args d' ''size'' = int_args d ''size'' \<Longrightarrow>
   float_args d' ''alpha'' = float_args d ''alpha'' \<Longrightarrow>
   float_args d' ''beta'' = float_args d ''beta'' \<Longrightarrow>
   float_args d' ''bias'' = float_args d ''bias'' \<Longrightarrow>
   CuDNNLRNOp_ctor v d' tr = CuDNNLRNOp_ctor v d tr"
  by (simp add: CuDNNLRNOp_ctor_def GetSingleArgument_int_def GetSingleArgument_float_def)

lemma gradient_ctor_same: "CuDNNLRNGradientOp_ctor = CuDNNLRNOp_ctor"
  by (intro ext) (simp add: CuDNNLRNGradientOp_ctor_def CuDNNLRNOp_ctor_def)

lemma layout_shape: "rank4 X \<Longrightarrow> desc_shape (Some (layout_of T X)) = Some (dims X)"
proof -
  assume "rank4 X"
  then have "length (dims X) = 4" by (simp add: rank4_def)
  then obtain a b c d where "dims X = [a, b, c, d]"
    by (cases "dims X"; simp; rename_tac b l, case_tac l; simp;
        rename_tac c l', case_tac l'; simp; rename_tac d l'', case_tac l''; simp)
  then show ?thesis by (simp add: desc_shape_def layout_of_def)
qed

lemma coherent_shape:
  "coherent this \<Longrightarrow> rank4 X \<Longrightarrow> dims X = cudnn_input_dims this \<Longrightarrow>
   desc_shape (data_desc this) = Some (dims X)"
  by (auto simp: coherent_def desc_shape_def rank4_def split: option.splits)

lemma forward_compute_sees_input_shape:
  assumes "coherent (self s)" and "rank4 X" and "supported X"
    and "s' = snd (CuDNNLRNOp_RunOnDevice v X s)"
    and "list_ex is_compute (issued s s')"
  shows "cudnn_input_dims (self s') = dims X
    \<and> desc_shape (data_desc (self s')) = Some (dims X)
    \<and> last (issued s s') = forward_call (self s') (ctype_of X) X (Output0 s)"
proof (cases "dims X = cudnn_input_dims (self s)")
  case True
  from forward_hit [OF assms(3) True, of v] assms(1,2,4) True show ?thesis
    by (simp add: coherent_shape)
next
  case False
  from forward_miss [OF assms(3,2) False, of v] assms(2,4,5) show ?thesis
    by (simp add: layout_shape forward_call_def split: if_splits)
qed

lemma forward_keeps_coherent:
  assumes "coherent (self s)" and "rank4 X"
    and "fst (CuDNNLRNOp_RunOnDevice v X s) = Inr True"
  shows "coherent (self (snd (CuDNNLRNOp_RunOnDevice v X s)))"
proof -
  from assms(3) have sup: "supported X"
    by (cases "supported X") (simp_all add: forward_rejects)
  show ?thesis
  proof (cases "dims X = cudnn_input_dims (self s)")
    case True
    from forward_hit [OF sup True, of v] assms(1) show ?thesis by simp
  next
    case False
    from assms(2,3) sup False
    have ok: "v (calls s) (cudnnSetTensor4dDescriptor (layout_of (ctype_of X) X))
        = CUDNN_STATUS_SUCCESS"
      by (auto simp: forward_dispatch forward_typed_miss supported_IsType Let_def
          split: if_splits)
    from layout_shape [OF assms(2), of "ctype_of X"]
    have "dims X = [dim_n (layout_of (ctype_of X) X), dim_c (layout_of (ctype_of X) X),
        dim_h (layout_of (ctype_of X) X), dim_w (layout_of (ctype_of X) X)]"
      by (simp add: desc_shape_def)
    with forward_miss [OF sup assms(2) False, of v] ok show ?thesis
      by (simp add: coherent_def)
  qed
qed

text \<open>Unfolding everything, for running the operators on given tensors.\<close>

lemmas eval_defs = CuDNNLRNOp_RunOnDevice_def CuDNNLRNOp_DoRunWithType_def
  CuDNNLRNGradientOp_RunOnDevice_def CuDNNLRNGradientOp_DoRunWithType_def
  set_descriptors_def dim32_def INT_MAX_def CUDNN_ENFORCE_def mutable_data_def data_def
  ResizeLike_def IsType_def supported_def ctype_of_def rank4_def layout_of_def
  issued_def entered_def start_def tensor_def lrn_op_def lrn_config_def
  cudnn_accepts_def cudnn_checks_layout_def forward_call_def backward_call_def
  CuDNNLRNOp_ctor_def CuDNNLRNGradientOp_ctor_def
  GetSingleArgument_int_def GetSingleArgument_float_def desc_shape_def Let_def

subsection \<open>The type dispatch\<close>

text \<open>
  Claim C4. The forward operator raises the unsupported-type error if and only if the
  input's element kind is neither single nor half precision; for a single-precision input
  the run is the run of \<^verbatim>\<open>DoRunWithType<float, float>\<close>, for a half-precision
  input that of \<^verbatim>\<open>DoRunWithType<float16, float>\<close>, each on the state with the
  output resized.
\<close>

theorem forward_unsupported_iff:
  "(fst (CuDNNLRNOp_RunOnDevice v X s) = Inl Unsupported_input_type)
     = (\<not> IsType X T_float \<and> \<not> IsType X T_float16)
   \<and> (IsType X T_float \<longrightarrow>
        CuDNNLRNOp_RunOnDevice v X s =
          CuDNNLRNOp_DoRunWithType v T_float T_float X
            (s\<lparr>Output0 := ResizeLike (Output0 s) X\<rparr>))
   \<and> (IsType X T_float16 \<longrightarrow>
        CuDNNLRNOp_RunOnDevice v X s =
          CuDNNLRNOp_DoRunWithType v T_float16 T_float X
            (s\<lparr>Output0 := ResizeLike (Output0 s) X\<rparr>))"
proof -
  have typed: "fst (CuDNNLRNOp_DoRunWithType v T M X t) \<noteq> Inl Unsupported_input_type"
    for T M t
    using forward_typed_effect [of v T M X t] by (cases "CuDNNLRNOp_DoRunWithType v T M X t") simp
  have excl: "\<not> (IsType X T_float \<and> IsType X T_float16)"
    by (simp add: IsType_def)
  show ?thesis
    using typed excl by (auto simp: CuDNNLRNOp_RunOnDevice_def Let_def)
qed

theorem forward_unsupported_iff_witness:
  "fst (CuDNNLRNOp_RunOnDevice cudnn_accepts (tensor [2, 8, 4, 4] Int32 1)
          (start lrn_op (tensor [] Float 2) [])) = Inl Unsupported_input_type
   \<and> IsType (tensor [2, 8, 4, 4] Float 1) T_float
   \<and> CuDNNLRNOp_RunOnDevice cudnn_accepts (tensor [2, 8, 4, 4] Float 1)
          (start lrn_op (tensor [] Float 2) []) =
       CuDNNLRNOp_DoRunWithType cudnn_accepts T_float T_float (tensor [2, 8, 4, 4] Float 1)
          ((start lrn_op (tensor [] Float 2) [])\<lparr>Output0 := tensor [2, 8, 4, 4] Float 2\<rparr>)
   \<and> IsType (tensor [1, 4, 2, 2] Float16 1) T_float16
   \<and> fst (CuDNNLRNOp_RunOnDevice cudnn_accepts (tensor [1, 4, 2, 2] Float16 1)
          (start lrn_op (tensor [] Float 2) [])) = Inr True"
  using forward_unsupported_iff [of cudnn_accepts "tensor [2, 8, 4, 4] Int32 1"
          "start lrn_op (tensor [] Float 2) []"]
        forward_unsupported_iff [of cudnn_accepts "tensor [2, 8, 4, 4] Float 1"
          "start lrn_op (tensor [] Float 2) []"]
        forward_unsupported_iff [of cudnn_accepts "tensor [1, 4, 2, 2] Float16 1"
          "start lrn_op (tensor [] Float 2) []"]
  by (simp add: IsType_def tensor_def ResizeLike_def start_def CuDNNLRNOp_DoRunWithType_def
      set_descriptors_def dim32_def INT_MAX_def CUDNN_ENFORCE_def cudnn_accepts_def
      mutable_data_def data_def lrn_op_def Let_def)

text \<open>
  Claim C7. The dispatch enters \<^verbatim>\<open>DoRunWithType<float, float>\<close> for a
  single-precision input and \<^verbatim>\<open>DoRunWithType<float16, float>\<close> for a
  half-precision one, and no instantiation otherwise: the element type is the input's and
  the accumulation type is single precision in both. The forward operator decides on \<open>X\<close>,
  the backward operator on \<open>dY\<close>.
\<close>

theorem dispatch_pairings:
  "entered s (snd (CuDNNLRNOp_RunOnDevice v X s)) =
     (if IsType X T_float then [(T_float, T_float)]
      else if IsType X T_float16 then [(T_float16, T_float)] else [])
   \<and> entered s (snd (CuDNNLRNGradientOp_RunOnDevice v X' Y dY s)) =
     (if IsType dY T_float then [(T_float, T_float)]
      else if IsType dY T_float16 then [(T_float16, T_float)] else [])"
  by (simp add: entered_def CuDNNLRNOp_RunOnDevice_def CuDNNLRNGradientOp_RunOnDevice_def
      Let_def forward_typed_runs backward_typed_runs)

theorem dispatch_pairings_witness:
  "entered (start lrn_op (tensor [] Float 2) [])
     (snd (CuDNNLRNOp_RunOnDevice cudnn_accepts (tensor [1, 4, 2, 2] Float16 1)
        (start lrn_op (tensor [] Float 2) []))) = [(T_float16, T_float)]
   \<and> entered (start lrn_op (tensor [] Float 2) [])
     (snd (CuDNNLRNGradientOp_RunOnDevice cudnn_accepts (tensor [2, 8, 4, 4] Float 1)
        (tensor [2, 8, 4, 4] Float 3) (tensor [2, 8, 4, 4] Float 4)
        (start lrn_op (tensor [] Float 2) []))) = [(T_float, T_float)]"
  using dispatch_pairings [of "start lrn_op (tensor [] Float 2) []" cudnn_accepts
      "tensor [1, 4, 2, 2] Float16 1" "tensor [2, 8, 4, 4] Float 1"
      "tensor [2, 8, 4, 4] Float 3" "tensor [2, 8, 4, 4] Float 4"]
  by (simp add: IsType_def tensor_def)

subsection \<open>Failing fast\<close>

text \<open>
  Claim C3 as stated does not hold. The resize of the output comes before the dispatch, so
  an input of an unsupported kind has already changed the output tensor when the error is
  raised: here the output goes from no dimensions to those of the rejected integer tensor.
\<close>

theorem unsupported_forward_resizes_output:
  "fst (CuDNNLRNOp_RunOnDevice cudnn_accepts (tensor [2, 8, 4, 4] Int32 1)
          (start lrn_op (tensor [] Float 2) [])) = Inl Unsupported_input_type
   \<and> dims (Output0 (start lrn_op (tensor [] Float 2) [])) = []
   \<and> dims (Output0 (snd (CuDNNLRNOp_RunOnDevice cudnn_accepts (tensor [2, 8, 4, 4] Int32 1)
          (start lrn_op (tensor [] Float 2) [])))) = [2, 8, 4, 4]"
  by (simp add: CuDNNLRNOp_RunOnDevice_def IsType_def tensor_def start_def ResizeLike_def)

text \<open>
  Claim C3, amended. For an input whose element kind is neither single nor half
  precision, the forward operator fails with the unsupported-type error before any
  descriptor work and any vendor call: the operator's members and the log of calls are as
  before, no instantiation is entered, and the one thing changed is the output tensor,
  whose shape is already the input's (its element kind and buffer are untouched).
\<close>

theorem unsupported_forward_fails_fast:
  "\<not> IsType X T_float \<Longrightarrow> \<not> IsType X T_float16 \<Longrightarrow>
   CuDNNLRNOp_RunOnDevice v X s =
     (Inl Unsupported_input_type, s\<lparr>Output0 := (Output0 s)\<lparr>dims := dims X\<rparr>\<rparr>)"
  by (simp add: CuDNNLRNOp_RunOnDevice_def ResizeLike_def)

theorem unsupported_forward_fails_fast_witness:
  "\<not> IsType (tensor [2, 8, 4, 4] Int32 1) T_float
   \<and> \<not> IsType (tensor [2, 8, 4, 4] Int32 1) T_float16
   \<and> CuDNNLRNOp_RunOnDevice cudnn_accepts (tensor [2, 8, 4, 4] Int32 1)
       (start lrn_op (tensor [] Float 2) []) =
     (Inl Unsupported_input_type, start lrn_op (tensor [2, 8, 4, 4] Float 2) [])"
proof -
  have a: "\<not> IsType (tensor [2, 8, 4, 4] Int32 1) T_float"
    and b: "\<not> IsType (tensor [2, 8, 4, 4] Int32 1) T_float16"
    by (simp_all add: IsType_def tensor_def)
  show ?thesis
    using a b unsupported_forward_fails_fast [OF a b, of cudnn_accepts
        "start lrn_op (tensor [] Float 2) []"]
    by (simp add: start_def tensor_def)
qed

subsection \<open>Output shapes\<close>

text \<open>
  Claim C5. For a rank-4 input of a supported kind, a successful forward invocation leaves
  the output with exactly the input's shape. The resize is the first statement of
  \<^verbatim>\<open>RunOnDevice\<close> and nothing after it touches the shape, so the equation holds
  whatever the outcome (\<open>forward_output_dims\<close>).
\<close>

theorem forward_output_shape:
  "rank4 X \<Longrightarrow> supported X \<Longrightarrow> fst (CuDNNLRNOp_RunOnDevice v X s) = Inr True \<Longrightarrow>
   dims (Output0 (snd (CuDNNLRNOp_RunOnDevice v X s))) = dims X"
  by (rule forward_output_dims)

theorem forward_output_shape_witness:
  "rank4 (tensor [2, 8, 4, 4] Float 1) \<and> supported (tensor [2, 8, 4, 4] Float 1)
   \<and> fst (CuDNNLRNOp_RunOnDevice cudnn_accepts (tensor [2, 8, 4, 4] Float 1)
        (start lrn_op (tensor [] Float 2) [])) = Inr True
   \<and> dims (Output0 (snd (CuDNNLRNOp_RunOnDevice cudnn_accepts (tensor [2, 8, 4, 4] Float 1)
        (start lrn_op (tensor [] Float 2) [])))) = [2, 8, 4, 4]"
proof -
  have a: "rank4 (tensor [2, 8, 4, 4] Float 1)"
    by (simp add: rank4_def tensor_def INT_MAX_def)
  have b: "supported (tensor [2, 8, 4, 4] Float 1)"
    by (simp add: supported_def IsType_def tensor_def)
  have c: "fst (CuDNNLRNOp_RunOnDevice cudnn_accepts (tensor [2, 8, 4, 4] Float 1)
        (start lrn_op (tensor [] Float 2) [])) = Inr True"
    by (simp add: eval_defs)
  show ?thesis
    using a b c forward_output_shape [OF a b c] by (simp add: tensor_def)
qed

text \<open>
  Claim C6. The backward operator leaves \<open>dX\<close> with exactly the shape of \<open>dY\<close>; the
  resize is its first statement, so this holds whatever the outcome. The decision to rebuild
  the layout compares the cache with the shape of \<open>dY\<close>: a layout is set only when the
  two differ, for a rank-4 \<open>dY\<close> of a supported kind whose shape differs the run begins
  by setting the layout of \<open>dY\<close>, and the shapes of \<open>X\<close> and \<open>Y\<close> have no influence
  on the run.
\<close>

theorem backward_output_shape_and_cache_key:
  "dims (Output0 (snd (CuDNNLRNGradientOp_RunOnDevice v X Y dY s))) = dims dY
   \<and> (list_ex is_set_layout (issued s (snd (CuDNNLRNGradientOp_RunOnDevice v X Y dY s))) \<longrightarrow>
        dims dY \<noteq> cudnn_input_dims (self s))
   \<and> (supported dY \<and> rank4 dY \<and> dims dY \<noteq> cudnn_input_dims (self s) \<longrightarrow>
        take 1 (issued s (snd (CuDNNLRNGradientOp_RunOnDevice v X Y dY s))) =
          [cudnnSetTensor4dDescriptor (layout_of (ctype_of dY) dY)])
   \<and> CuDNNLRNGradientOp_RunOnDevice v (X\<lparr>dims := dsx\<rparr>) (Y\<lparr>dims := dsy\<rparr>) dY s =
       CuDNNLRNGradientOp_RunOnDevice v X Y dY s"
proof (intro conjI impI)
  show "dims (Output0 (snd (CuDNNLRNGradientOp_RunOnDevice v X Y dY s))) = dims dY"
    by (rule backward_output_dims)
next
  assume "list_ex is_set_layout (issued s (snd (CuDNNLRNGradientOp_RunOnDevice v X Y dY s)))"
  then show "dims dY \<noteq> cudnn_input_dims (self s)"
    by (rule backward_set_layout_needs_miss)
next
  assume "supported dY \<and> rank4 dY \<and> dims dY \<noteq> cudnn_input_dims (self s)"
  then show "take 1 (issued s (snd (CuDNNLRNGradientOp_RunOnDevice v X Y dY s))) =
          [cudnnSetTensor4dDescriptor (layout_of (ctype_of dY) dY)]"
    using backward_miss_first [of dY s v X Y] by blast
next
  show "CuDNNLRNGradientOp_RunOnDevice v (X\<lparr>dims := dsx\<rparr>) (Y\<lparr>dims := dsy\<rparr>) dY s =
       CuDNNLRNGradientOp_RunOnDevice v X Y dY s"
    by (rule backward_ignores_shapes)
qed

theorem backward_output_shape_and_cache_key_witness:
  "dims (Output0 (snd (CuDNNLRNGradientOp_RunOnDevice cudnn_accepts
      (tensor [9, 9] Float 1) (tensor [7] Float 3) (tensor [2, 8, 4, 4] Float 4)
      (start lrn_op (tensor [] Float 2) [])))) = [2, 8, 4, 4]
   \<and> list_ex is_set_layout (issued (start lrn_op (tensor [] Float 2) [])
       (snd (CuDNNLRNGradientOp_RunOnDevice cudnn_accepts
      (tensor [9, 9] Float 1) (tensor [7] Float 3) (tensor [2, 8, 4, 4] Float 4)
      (start lrn_op (tensor [] Float 2) []))))
   \<and> supported (tensor [2, 8, 4, 4] Float 4) \<and> rank4 (tensor [2, 8, 4, 4] Float 4)
   \<and> dims (tensor [2, 8, 4, 4] Float 4) \<noteq>
       cudnn_input_dims (self (start lrn_op (tensor [] Float 2) []))
   \<and> take 1 (issued (start lrn_op (tensor [] Float 2) [])
       (snd (CuDNNLRNGradientOp_RunOnDevice cudnn_accepts
      (tensor [9, 9] Float 1) (tensor [7] Float 3) (tensor [2, 8, 4, 4] Float 4)
      (start lrn_op (tensor [] Float 2) [])))) =
      [cudnnSetTensor4dDescriptor
          \<lparr>format = CUDNN_TENSOR_NCHW, dataType = CUDNN_DATA_FLOAT,
           dim_n = 2, dim_c = 8, dim_h = 4, dim_w = 4\<rparr>]"
  using backward_output_shape_and_cache_key
      [where v = cudnn_accepts and X = "tensor [9, 9] Float 1" and Y = "tensor [7] Float 3"
         and dY = "tensor [2, 8, 4, 4] Float 4" and s = "start lrn_op (tensor [] Float 2) []"]
  by (simp add: eval_defs)

subsection \<open>The shape cache\<close>

text \<open>
  Claim C2. Of two consecutive forward invocations on inputs of one shape and of supported
  kinds, the second sets no layout (whatever the first did, and whatever output tensor the
  second is given). An invocation sets a layout only if the input's shape differs from the
  cached one; and when a rank-4 input of a supported kind differs from the cache, the first
  vendor call of the run sets the layout of that input.
\<close>

theorem forward_rebuild_only_on_shape_change:
  "(supported X1 \<and> supported X2 \<and> dims X2 = dims X1 \<longrightarrow>
      \<not> list_ex is_set_layout
          (issued ((snd (CuDNNLRNOp_RunOnDevice v X1 s))\<lparr>Output0 := Y2\<rparr>)
             (snd (CuDNNLRNOp_RunOnDevice v X2
                ((snd (CuDNNLRNOp_RunOnDevice v X1 s))\<lparr>Output0 := Y2\<rparr>)))))
   \<and> (list_ex is_set_layout (issued s (snd (CuDNNLRNOp_RunOnDevice v X s))) \<longrightarrow>
        dims X \<noteq> cudnn_input_dims (self s))
   \<and> (supported X \<and> rank4 X \<and> dims X \<noteq> cudnn_input_dims (self s) \<longrightarrow>
        take 1 (issued s (snd (CuDNNLRNOp_RunOnDevice v X s))) =
          [cudnnSetTensor4dDescriptor (layout_of (ctype_of X) X)])"
proof (intro conjI impI)
  assume h: "supported X1 \<and> supported X2 \<and> dims X2 = dims X1"
  let ?s1 = "(snd (CuDNNLRNOp_RunOnDevice v X1 s))\<lparr>Output0 := Y2\<rparr>"
  from h have "dims X2 = cudnn_input_dims (self ?s1)"
    by (simp add: forward_cache_after)
  with h have "issued ?s1 (snd (CuDNNLRNOp_RunOnDevice v X2 ?s1)) =
      [forward_call (self ?s1) (ctype_of X2) X2 (Output0 ?s1)]"
    using forward_hit by blast
  then show "\<not> list_ex is_set_layout (issued ?s1 (snd (CuDNNLRNOp_RunOnDevice v X2 ?s1)))"
    by (simp add: forward_call_def)
next
  assume "list_ex is_set_layout (issued s (snd (CuDNNLRNOp_RunOnDevice v X s)))"
  then show "dims X \<noteq> cudnn_input_dims (self s)"
    by (rule forward_set_layout_needs_miss)
next
  assume "supported X \<and> rank4 X \<and> dims X \<noteq> cudnn_input_dims (self s)"
  then show "take 1 (issued s (snd (CuDNNLRNOp_RunOnDevice v X s))) =
          [cudnnSetTensor4dDescriptor (layout_of (ctype_of X) X)]"
    by (simp add: forward_miss)
qed


theorem forward_rebuild_only_on_shape_change_witness:
  "supported (tensor [2, 8, 4, 4] Float 1)
   \<and> \<not> list_ex is_set_layout
        (issued (snd (CuDNNLRNOp_RunOnDevice cudnn_accepts (tensor [2, 8, 4, 4] Float 1)
                   (start lrn_op (tensor [] Float 2) [])))
           (snd (CuDNNLRNOp_RunOnDevice cudnn_accepts (tensor [2, 8, 4, 4] Float 1)
              (snd (CuDNNLRNOp_RunOnDevice cudnn_accepts (tensor [2, 8, 4, 4] Float 1)
                   (start lrn_op (tensor [] Float 2) []))))))
   \<and> list_ex is_set_layout
        (issued (snd (CuDNNLRNOp_RunOnDevice cudnn_accepts (tensor [2, 8, 4, 4] Float 1)
                   (start lrn_op (tensor [] Float 2) [])))
           (snd (CuDNNLRNOp_RunOnDevice cudnn_accepts (tensor [4, 8, 4, 4] Float 1)
              (snd (CuDNNLRNOp_RunOnDevice cudnn_accepts (tensor [2, 8, 4, 4] Float 1)
                   (start lrn_op (tensor [] Float 2) []))))))
   \<and> rank4 (tensor [4, 8, 4, 4] Float 1)
   \<and> dims (tensor [4, 8, 4, 4] Float 1) \<noteq>
       cudnn_input_dims (self (snd (CuDNNLRNOp_RunOnDevice cudnn_accepts
          (tensor [2, 8, 4, 4] Float 1) (start lrn_op (tensor [] Float 2) []))))
   \<and> take 1 (issued (snd (CuDNNLRNOp_RunOnDevice cudnn_accepts (tensor [2, 8, 4, 4] Float 1)
                   (start lrn_op (tensor [] Float 2) [])))
           (snd (CuDNNLRNOp_RunOnDevice cudnn_accepts (tensor [4, 8, 4, 4] Float 1)
              (snd (CuDNNLRNOp_RunOnDevice cudnn_accepts (tensor [2, 8, 4, 4] Float 1)
                   (start lrn_op (tensor [] Float 2) [])))))) =
       [cudnnSetTensor4dDescriptor
          \<lparr>format = CUDNN_TENSOR_NCHW, dataType = CUDNN_DATA_FLOAT,
           dim_n = 4, dim_c = 8, dim_h = 4, dim_w = 4\<rparr>]"
  using forward_rebuild_only_on_shape_change
      [where ?X1.0 = "tensor [2, 8, 4, 4] Float 1" and ?X2.0 = "tensor [2, 8, 4, 4] Float 1"
         and v = cudnn_accepts and s = "start lrn_op (tensor [] Float 2) []"
         and ?Y2.0 = "tensor [2, 8, 4, 4] Float 2" and X = "tensor [2, 8, 4, 4] Float 1"]
    forward_rebuild_only_on_shape_change
      [where ?X1.0 = "tensor [2, 8, 4, 4] Float 1" and ?X2.0 = "tensor [2, 8, 4, 4] Float 1"
         and v = cudnn_accepts
         and s = "snd (CuDNNLRNOp_RunOnDevice cudnn_accepts (tensor [2, 8, 4, 4] Float 1)
                   (start lrn_op (tensor [] Float 2) []))"
         and ?Y2.0 = "tensor [2, 8, 4, 4] Float 2" and X = "tensor [4, 8, 4, 4] Float 1"]
  by (simp add: eval_defs)

text \<open>
  Claim C9. The cache is keyed on the dimensions alone. When a forward invocation on \<open>X1\<close>
  is followed by one on \<open>X2\<close> of the same shape and of another supported kind, the second
  makes the compute call only, with pointers typed at the kind of \<open>X2\<close>, and leaves the
  tensor descriptor as the first left it. If the first invocation built the descriptor, it
  is the layout of \<open>X1\<close>, whose element type is not that of \<open>X2\<close>.
\<close>

theorem cache_key_ignores_element_type:
  "supported X1 \<Longrightarrow> supported X2 \<Longrightarrow> meta X2 \<noteq> meta X1 \<Longrightarrow> dims X2 = dims X1 \<Longrightarrow>
   s1 = (snd (CuDNNLRNOp_RunOnDevice v X1 s))\<lparr>Output0 := Y2\<rparr> \<Longrightarrow>
   s2 = snd (CuDNNLRNOp_RunOnDevice v X2 s1) \<Longrightarrow>
   issued s1 s2 = [forward_call (self s1) (ctype_of X2) X2 Y2]
   \<and> data_desc (self s2) = data_desc (self s1)
   \<and> (rank4 X1 \<and> dims X1 \<noteq> cudnn_input_dims (self s)
        \<and> fst (CuDNNLRNOp_RunOnDevice v X1 s) = Inr True \<longrightarrow>
      data_desc (self s2) = Some (layout_of (ctype_of X1) X1)
      \<and> dataType (layout_of (ctype_of X1) X1) \<noteq> cudnnTypeWrapper_type (ctype_of X2))"
proof -
  assume sup1: "supported X1" and sup2: "supported X2" and kinds: "meta X2 \<noteq> meta X1"
    and shape: "dims X2 = dims X1"
    and s1: "s1 = (snd (CuDNNLRNOp_RunOnDevice v X1 s))\<lparr>Output0 := Y2\<rparr>"
    and s2: "s2 = snd (CuDNNLRNOp_RunOnDevice v X2 s1)"
  from sup1 shape s1 have hit: "dims X2 = cudnn_input_dims (self s1)"
    by (simp add: forward_cache_after)
  from forward_hit [OF sup2 hit, of v] s1 s2
  have second: "issued s1 s2 = [forward_call (self s1) (ctype_of X2) X2 Y2]"
    and kept: "self s2 = self s1"
    by (simp_all add: forward_call_def)
  have types: "ctype_of X1 \<noteq> ctype_of X2"
    using sup1 sup2 kinds by (auto simp: supported_def ctype_of_def IsType_def)
  have tags: "dataType (layout_of (ctype_of X1) X1) \<noteq> cudnnTypeWrapper_type (ctype_of X2)"
    using types by (cases "ctype_of X1"; cases "ctype_of X2") (simp_all add: layout_of_def)
  have first: "data_desc (self s1) = Some (layout_of (ctype_of X1) X1)"
    if "rank4 X1 \<and> dims X1 \<noteq> cudnn_input_dims (self s)
        \<and> fst (CuDNNLRNOp_RunOnDevice v X1 s) = Inr True"
  proof -
    from that have ok: "v (calls s) (cudnnSetTensor4dDescriptor (layout_of (ctype_of X1) X1))
        = CUDNN_STATUS_SUCCESS"
      using sup1
      by (auto simp: forward_dispatch forward_typed_miss supported_IsType Let_def
          split: if_splits)
    with that sup1 s1 show ?thesis
      by (simp add: forward_miss)
  qed
  from second kept tags first show ?thesis by simp
qed

theorem cache_key_ignores_element_type_witness:
  "supported (tensor [2, 8, 4, 4] Float 1) \<and> supported (tensor [2, 8, 4, 4] Float16 5)
   \<and> meta (tensor [2, 8, 4, 4] Float16 5) \<noteq> meta (tensor [2, 8, 4, 4] Float 1)
   \<and> dims (tensor [2, 8, 4, 4] Float16 5) = dims (tensor [2, 8, 4, 4] Float 1)
   \<and> rank4 (tensor [2, 8, 4, 4] Float 1)
   \<and> dims (tensor [2, 8, 4, 4] Float 1) \<noteq>
        cudnn_input_dims (self (start lrn_op (tensor [] Float 2) []))
   \<and> fst (CuDNNLRNOp_RunOnDevice cudnn_accepts (tensor [2, 8, 4, 4] Float 1)
        (start lrn_op (tensor [] Float 2) [])) = Inr True
   \<and> issued
        (snd (CuDNNLRNOp_RunOnDevice cudnn_accepts (tensor [2, 8, 4, 4] Float 1)
           (start lrn_op (tensor [] Float 2) [])))
        (snd (CuDNNLRNOp_RunOnDevice cudnn_accepts (tensor [2, 8, 4, 4] Float16 5)
           (snd (CuDNNLRNOp_RunOnDevice cudnn_accepts (tensor [2, 8, 4, 4] Float 1)
              (start lrn_op (tensor [] Float 2) []))))) =
      [cudnnLRNCrossChannelForward
         \<lparr>lrnN = 5, lrnAlpha = 1 / 10000, lrnBeta = 3 / 4, lrnK = 1\<rparr>
         CUDNN_LRN_CROSS_CHANNEL_DIM1 (kOne T_float16)
         (Some \<lparr>format = CUDNN_TENSOR_NCHW, dataType = CUDNN_DATA_FLOAT,
                dim_n = 2, dim_c = 8, dim_h = 4, dim_w = 4\<rparr>)
         (Ptr T_float16 5) (kZero T_float16)
         (Some \<lparr>format = CUDNN_TENSOR_NCHW, dataType = CUDNN_DATA_FLOAT,
                dim_n = 2, dim_c = 8, dim_h = 4, dim_w = 4\<rparr>)
         (Ptr T_float16 2)]"
proof -
  have a: "supported (tensor [2, 8, 4, 4] Float 1)"
    and b: "supported (tensor [2, 8, 4, 4] Float16 5)"
    and c: "meta (tensor [2, 8, 4, 4] Float16 5) \<noteq> meta (tensor [2, 8, 4, 4] Float 1)"
    and d: "dims (tensor [2, 8, 4, 4] Float16 5) = dims (tensor [2, 8, 4, 4] Float 1)"
    by (simp_all add: supported_def IsType_def tensor_def)
  have e: "(snd (CuDNNLRNOp_RunOnDevice cudnn_accepts (tensor [2, 8, 4, 4] Float 1)
           (start lrn_op (tensor [] Float 2) []))) =
     (snd (CuDNNLRNOp_RunOnDevice cudnn_accepts (tensor [2, 8, 4, 4] Float 1)
           (start lrn_op (tensor [] Float 2) [])))\<lparr>Output0 := tensor [2, 8, 4, 4] Float 2\<rparr>"
    by (simp add: eval_defs)
  show ?thesis
    using a b c d cache_key_ignores_element_type [OF a b c d e refl]
    by (simp add: eval_defs)
qed

text \<open>
  Claim C1 says that every compute call is issued with the cache and the tensor descriptor
  at the shape of the current input. The operator assigns the cache before it asks the
  vendor to set the descriptor, so an invocation in which that call is rejected leaves the
  cache at the new shape and the descriptor at the old one. Here the operator is built from
  the end-to-end configuration, run on a batch of shape (2, 8, 4, 4), then on an empty
  batch (0, 8, 4, 4), for which the vendor answers \<^verbatim>\<open>CUDNN_STATUS_BAD_PARAM\<close>, then on
  the empty batch again: the third invocation finds the cache equal to the input's shape,
  sets nothing, and issues the compute call with the descriptor of shape (2, 8, 4, 4). The
  backward operator, run on gradients of the same shapes, does the same.
\<close>

theorem stale_layout_after_rejected_refresh:
  "CuDNNLRNOp_ctor cudnn_checks_layout lrn_config [] =
     (Inr lrn_op,
      [cudnnCreateTensorDescriptor, cudnnCreateLRNDescriptor,
       cudnnSetLRNDescriptor 5 (1 / 10000) (3 / 4) 1])
   \<and> fst (CuDNNLRNOp_RunOnDevice cudnn_checks_layout (tensor [2, 8, 4, 4] Float 1)
          (start lrn_op (tensor [] Float 2) [])) = Inr True
   \<and> fst (CuDNNLRNOp_RunOnDevice cudnn_checks_layout (tensor [0, 8, 4, 4] Float 3)
          after_batch) = Inl (CudnnError CUDNN_STATUS_BAD_PARAM)
   \<and> cudnn_input_dims (self after_rejected) = [0, 8, 4, 4]
   \<and> desc_shape (data_desc (self after_rejected)) = Some [2, 8, 4, 4]
   \<and> rank4 (tensor [0, 8, 4, 4] Float 3)
   \<and> issued after_rejected
        (snd (CuDNNLRNOp_RunOnDevice cudnn_checks_layout (tensor [0, 8, 4, 4] Float 3)
           after_rejected)) =
      [cudnnLRNCrossChannelForward
         \<lparr>lrnN = 5, lrnAlpha = 1 / 10000, lrnBeta = 3 / 4, lrnK = 1\<rparr>
         CUDNN_LRN_CROSS_CHANNEL_DIM1 (kOne T_float)
         (Some \<lparr>format = CUDNN_TENSOR_NCHW, dataType = CUDNN_DATA_FLOAT,
                dim_n = 2, dim_c = 8, dim_h = 4, dim_w = 4\<rparr>)
         (Ptr T_float 3) (kZero T_float)
         (Some \<lparr>format = CUDNN_TENSOR_NCHW, dataType = CUDNN_DATA_FLOAT,
                dim_n = 2, dim_c = 8, dim_h = 4, dim_w = 4\<rparr>)
         (Ptr T_float 2)]
   \<and> fst (CuDNNLRNGradientOp_RunOnDevice cudnn_checks_layout (tensor [0, 8, 4, 4] Float 5)
          (tensor [0, 8, 4, 4] Float 6) (tensor [0, 8, 4, 4] Float 7) grad_after_batch) =
       Inl (CudnnError CUDNN_STATUS_BAD_PARAM)
   \<and> cudnn_input_dims (self grad_after_rejected) = [0, 8, 4, 4]
   \<and> desc_shape (data_desc (self grad_after_rejected)) = Some [2, 8, 4, 4]
   \<and> filter is_set_layout
        (issued grad_after_rejected
           (snd (CuDNNLRNGradientOp_RunOnDevice cudnn_checks_layout
              (tensor [0, 8, 4, 4] Float 5) (tensor [0, 8, 4, 4] Float 6)
              (tensor [0, 8, 4, 4] Float 7) grad_after_rejected))) = []
   \<and> list_ex is_compute
        (issued grad_after_rejected
           (snd (CuDNNLRNGradientOp_RunOnDevice cudnn_checks_layout
              (tensor [0, 8, 4, 4] Float 5) (tensor [0, 8, 4, 4] Float 6)
              (tensor [0, 8, 4, 4] Float 7) grad_after_rejected)))"
  by (simp add: after_rejected_def after_batch_def grad_after_rejected_def
      grad_after_batch_def eval_defs)

text \<open>
  In the states where the cache and the descriptor agree, the property of claim C1 holds
  for rank-4 inputs of a supported kind, and a successful invocation keeps them in
  agreement (\<open>forward_compute_sees_input_shape\<close>, \<open>forward_keeps_coherent\<close>); the
  operator is constructed in such a state.
\<close>

lemma constructed_coherent:
  "fst (CuDNNLRNOp_ctor v operator_def tr) = Inr this \<Longrightarrow> coherent this"
  using ctor_result [of v operator_def tr this] by (simp add: coherent_def)

subsection \<open>The inputs of the backward operator\<close>




subsection \<open>Construction and the normalization parameters\<close>

text \<open>
  Claim C8. A constructed operator holds the options \<open>size\<close>, \<open>alpha\<close>, \<open>beta\<close> and
  \<open>bias\<close> of its definition, with 0, 0, 0 and 1 for an absent one; its LRN descriptor holds
  these four values, and the construction made one call that creates and one that sets
  it. The backward operator is constructed by the same steps. Two definitions that agree
  on the four options construct the same operator. No invocation of either operator
  changes the four members or the LRN descriptor, or makes a vendor call on an LRN
  descriptor's creation or content.
\<close>

theorem normalization_parameters_fixed:
  "(fst (CuDNNLRNOp_ctor v operator_def tr) = Inr this \<longrightarrow>
      size_arg this = (case int_args operator_def ''size'' of None \<Rightarrow> 0 | Some x \<Rightarrow> x)
      \<and> alpha_arg this = (case float_args operator_def ''alpha'' of None \<Rightarrow> 0 | Some x \<Rightarrow> x)
      \<and> beta_arg this = (case float_args operator_def ''beta'' of None \<Rightarrow> 0 | Some x \<Rightarrow> x)
      \<and> bias_arg this = (case float_args operator_def ''bias'' of None \<Rightarrow> 1 | Some x \<Rightarrow> x)
      \<and> norm_desc this =
          \<lparr>lrnN = size_arg this, lrnAlpha = alpha_arg this, lrnBeta = beta_arg this,
           lrnK = bias_arg this\<rparr>
      \<and> snd (CuDNNLRNOp_ctor v operator_def tr) =
          tr @ [cudnnCreateTensorDescriptor, cudnnCreateLRNDescriptor,
                cudnnSetLRNDescriptor (size_arg this) (alpha_arg this) (beta_arg this)
                  (bias_arg this)])
   \<and> CuDNNLRNGradientOp_ctor v operator_def tr = CuDNNLRNOp_ctor v operator_def tr
   \<and> (int_args d' ''size'' = int_args operator_def ''size''
        \<and> float_args d' ''alpha'' = float_args operator_def ''alpha''
        \<and> float_args d' ''beta'' = float_args operator_def ''beta''
        \<and> float_args d' ''bias'' = float_args operator_def ''bias'' \<longrightarrow>
      CuDNNLRNOp_ctor v d' tr = CuDNNLRNOp_ctor v operator_def tr)
   \<and> (s' = snd (CuDNNLRNOp_RunOnDevice v X s) \<or>
       s' = snd (CuDNNLRNGradientOp_RunOnDevice v X Y dY s) \<longrightarrow>
      size_arg (self s') = size_arg (self s) \<and> alpha_arg (self s') = alpha_arg (self s)
      \<and> beta_arg (self s') = beta_arg (self s) \<and> bias_arg (self s') = bias_arg (self s)
      \<and> norm_desc (self s') = norm_desc (self s)
      \<and> \<not> list_ex is_norm_call (issued s s'))"
proof (intro conjI impI)
  assume made: "fst (CuDNNLRNOp_ctor v operator_def tr) = Inr this"
  note r = ctor_result [OF made]
  from r show "size_arg this = (case int_args operator_def ''size'' of None \<Rightarrow> 0 | Some x \<Rightarrow> x)"
    by (rule conjunct1)
  from r show "alpha_arg this =
      (case float_args operator_def ''alpha'' of None \<Rightarrow> 0 | Some x \<Rightarrow> x)"
    by simp
  from r show "beta_arg this =
      (case float_args operator_def ''beta'' of None \<Rightarrow> 0 | Some x \<Rightarrow> x)"
    by simp
  from r show "bias_arg this =
      (case float_args operator_def ''bias'' of None \<Rightarrow> 1 | Some x \<Rightarrow> x)"
    by simp
  from r show "norm_desc this =
          \<lparr>lrnN = size_arg this, lrnAlpha = alpha_arg this, lrnBeta = beta_arg this,
           lrnK = bias_arg this\<rparr>"
    by simp
  from r show "snd (CuDNNLRNOp_ctor v operator_def tr) =
          tr @ [cudnnCreateTensorDescriptor, cudnnCreateLRNDescriptor,
                cudnnSetLRNDescriptor (size_arg this) (alpha_arg this) (beta_arg this)
                  (bias_arg this)]"
    by simp
next
  show "CuDNNLRNGradientOp_ctor v operator_def tr = CuDNNLRNOp_ctor v operator_def tr"
    by (simp add: gradient_ctor_same)
next
  assume "int_args d' ''size'' = int_args operator_def ''size''
        \<and> float_args d' ''alpha'' = float_args operator_def ''alpha''
        \<and> float_args d' ''beta'' = float_args operator_def ''beta''
        \<and> float_args d' ''bias'' = float_args operator_def ''bias''"
  then show "CuDNNLRNOp_ctor v d' tr = CuDNNLRNOp_ctor v operator_def tr"
    by (intro ctor_reads_four) simp_all
next
  assume run: "s' = snd (CuDNNLRNOp_RunOnDevice v X s) \<or>
       s' = snd (CuDNNLRNGradientOp_RunOnDevice v X Y dY s)"
  with forward_frame [of v X s] backward_frame [of v X Y dY s]
  show "size_arg (self s') = size_arg (self s)" and "alpha_arg (self s') = alpha_arg (self s)"
    and "beta_arg (self s') = beta_arg (self s)" and "bias_arg (self s') = bias_arg (self s)"
    and "norm_desc (self s') = norm_desc (self s)"
    and "\<not> list_ex is_norm_call (issued s s')"
    by auto
qed

theorem normalization_parameters_fixed_witness:
  "fst (CuDNNLRNOp_ctor cudnn_accepts \<lparr>int_args = Map.empty, float_args = Map.empty\<rparr> []) =
     Inr \<lparr>data_desc = None,
          norm_desc = \<lparr>lrnN = 0, lrnAlpha = 0, lrnBeta = 0, lrnK = 1\<rparr>,
          cudnn_input_dims = [],
          size_arg = 0, alpha_arg = 0, beta_arg = 0, bias_arg = 1\<rparr>
   \<and> CuDNNLRNOp_ctor cudnn_accepts lrn_config [] =
       (Inr lrn_op,
        [cudnnCreateTensorDescriptor, cudnnCreateLRNDescriptor,
         cudnnSetLRNDescriptor 5 (1 / 10000) (3 / 4) 1])
   \<and> CuDNNLRNOp_ctor cudnn_accepts
        (lrn_config\<lparr>int_args := (int_args lrn_config)(''pad'' \<mapsto> 3)\<rparr>) [] =
      CuDNNLRNOp_ctor cudnn_accepts lrn_config []
   \<and> norm_desc (self (snd (CuDNNLRNOp_RunOnDevice cudnn_accepts (tensor [2, 8, 4, 4] Float 1)
        (start lrn_op (tensor [] Float 2) [])))) =
      \<lparr>lrnN = 5, lrnAlpha = 1 / 10000, lrnBeta = 3 / 4, lrnK = 1\<rparr>
   \<and> size_arg (self (snd (CuDNNLRNGradientOp_RunOnDevice cudnn_accepts
        (tensor [2, 8, 4, 4] Float 1) (tensor [2, 8, 4, 4] Float 3)
        (tensor [2, 8, 4, 4] Float 4) (start lrn_op (tensor [] Float 2) [])))) = 5"
  using normalization_parameters_fixed
      [where v = cudnn_accepts
         and operator_def = "\<lparr>int_args = Map.empty, float_args = Map.empty\<rparr>"
         and tr = "[]"
         and this = "\<lparr>data_desc = None,
            norm_desc = \<lparr>lrnN = 0, lrnAlpha = 0, lrnBeta = 0, lrnK = 1\<rparr>,
            cudnn_input_dims = [],
            size_arg = 0, alpha_arg = 0, beta_arg = 0, bias_arg = 1\<rparr>"]
    normalization_parameters_fixed
      [where v = cudnn_accepts and operator_def = lrn_config and tr = "[]" and this = lrn_op
         and d' = "lrn_config\<lparr>int_args := (int_args lrn_config)(''pad'' \<mapsto> 3)\<rparr>"
         and s = "start lrn_op (tensor [] Float 2) []" and X = "tensor [2, 8, 4, 4] Float 1"
         and s' = "snd (CuDNNLRNOp_RunOnDevice cudnn_accepts (tensor [2, 8, 4, 4] Float 1)
            (start lrn_op (tensor [] Float 2) []))"]
    normalization_parameters_fixed
      [where v = cudnn_accepts and operator_def = lrn_config and tr = "[]" and this = lrn_op
         and s = "start lrn_op (tensor [] Float 2) []" and X = "tensor [2, 8, 4, 4] Float 1"
         and Y = "tensor [2, 8, 4, 4] Float 3" and dY = "tensor [2, 8, 4, 4] Float 4"
         and s' = "snd (CuDNNLRNGradientOp_RunOnDevice cudnn_accepts
            (tensor [2, 8, 4, 4] Float 1) (tensor [2, 8, 4, 4] Float 3)
            (tensor [2, 8, 4, 4] Float 4) (start lrn_op (tensor [] Float 2) []))"]
  by (simp add: eval_defs)

end
